theory Spec2Isabelle
  imports Complex_Main "HOL-Library.AList"
begin

section \<open>Model-failover server: a shallow embedding of \<^verbatim>\<open>src/server.js\<close>\<close>

text \<open>
  The server keeps two JavaScript objects in memory (the simulation configurations and
  the health table), refreshes the health table in a probe cycle
  (\<^verbatim>\<open>updateAllModelsHealth\<close>) and answers \<^verbatim>\<open>POST /api/resolve-model\<close> from them.

  Conventions of the embedding.
  \<^item> A JavaScript number is a \<^typ>\<open>real\<close>; the rounding of IEEE doubles is not modelled.
    The only arithmetic of the source is in the mock probe; the monitor and the resolver
    compare a latency with the threshold and copy it.
  \<^item> A JavaScript object whose keys are not array indices is an association list in
    insertion order, every key at most once. A read \<^verbatim>\<open>obj[key]\<close> looks at the own
    properties first and then at \<^verbatim>\<open>Object.prototype\<close>, as both objects of the source are
    object literals.
  \<^item> Global state (the two objects, the console, the random number generator) is a
    record that every operation takes and returns.
  \<^item> An exception that leaves the request handler is an error value.
\<close>

subsection \<open>Configuration (lines 5--8)\<close>

definition HEALTH_CHECK_INTERVAL_MS :: real where
  "HEALTH_CHECK_INTERVAL_MS = 10000"

definition LATENCY_THRESHOLD_MS :: real where
  "LATENCY_THRESHOLD_MS = 1500"

subsection \<open>JavaScript objects\<close>

type_synonym 'a js_object = "(string \<times> 'a) list"

text \<open>
  The property names every object literal inherits from \<^verbatim>\<open>Object.prototype\<close>
  (ECMAScript, as Node.js has them). Each is a function, except \<^verbatim>\<open>__proto__\<close>, which
  reads as \<^verbatim>\<open>Object.prototype\<close> itself; all of them are truthy, none of them has a
  property \<^verbatim>\<open>primaryModel\<close>, \<^verbatim>\<open>secondaryModel\<close>, \<^verbatim>\<open>status\<close> or \<^verbatim>\<open>latency\<close>, and none is
  enumerable (a \<^verbatim>\<open>for ... in\<close> loop does not visit them).
\<close>

definition Object_prototype_keys :: "string list" where
  "Object_prototype_keys =
     [''constructor'', ''__proto__'', ''hasOwnProperty'', ''isPrototypeOf'',
      ''propertyIsEnumerable'', ''toLocaleString'', ''toString'', ''valueOf'',
      ''__defineGetter__'', ''__defineSetter__'', ''__lookupGetter__'',
      ''__lookupSetter__'']"

text \<open>What \<^verbatim>\<open>obj[key]\<close> evaluates to: an own property, a built-in of the prototype, or
  \<^verbatim>\<open>undefined\<close>.\<close>

datatype 'a js_value = Own 'a | Inherited | Undefined

definition js_get :: "'a js_object \<Rightarrow> string \<Rightarrow> 'a js_value" where
  "js_get obj key =
     (case map_of obj key of
        Some v \<Rightarrow> Own v
      | None \<Rightarrow> if key \<in> set Object_prototype_keys then Inherited else Undefined)"

text \<open>\<^verbatim>\<open>v.field\<close> for a value that is not \<^verbatim>\<open>undefined\<close>: the field of an own record,
  \<^verbatim>\<open>undefined\<close> (here \<open>None\<close>) on a built-in.\<close>

fun js_field :: "('a \<Rightarrow> 'b) \<Rightarrow> 'a js_value \<Rightarrow> 'b option" where
  "js_field f (Own v) = Some (f v)"
| "js_field f Inherited = None"
| "js_field f Undefined = None"

text \<open>\<^verbatim>\<open>obj[key] = v\<close>: an existing own property keeps its place, a new one goes last.\<close>

definition js_set :: "string \<Rightarrow> 'a \<Rightarrow> 'a js_object \<Rightarrow> 'a js_object" where
  "js_set key v obj = AList.update key v obj"

text \<open>The keys a \<^verbatim>\<open>for (const k in obj)\<close> loop visits, in order.\<close>

definition js_keys :: "'a js_object \<Rightarrow> string list" where
  "js_keys obj = map fst obj"

subsection \<open>Data (lines 14--33)\<close>

datatype health_status = UNKNOWN | HEALTHY | UNHEALTHY

record SimulationConfig =
  config_id :: string
  config_name :: string
  primaryModel :: string
  secondaryModel :: string

text \<open>\<^verbatim>\<open>latency: null\<close> is \<open>None\<close>.\<close>

record ModelHealth =
  status :: health_status
  latency :: "real option"

text \<open>What the promise of a probe resolves to (\<^verbatim>\<open>{success, latency}\<close>).\<close>

record ProbeResult =
  success :: bool
  result_latency :: real

text \<open>
  Template literals. A text is the list of its parts; a number interpolated into it is
  kept as the number (how \<^verbatim>\<open>Number.prototype.toString\<close> prints a double is the
  runtime's and is not modelled).
\<close>

datatype fragment = Text string | Number real

type_synonym js_text = "fragment list"

text \<open>
  The process state. \<open>console\<close> holds the lines written by \<^verbatim>\<open>console.log\<close>, oldest
  first. \<^verbatim>\<open>Math.random\<close> is a sequence of numbers fixed in advance and the count of the
  calls made so far.
\<close>

record server =
  simulationConfigs :: "SimulationConfig js_object"
  modelHealthStatus :: "ModelHealth js_object"
  console :: "js_text list"
  random_source :: "nat \<Rightarrow> real"
  random_calls :: nat

definition initial_server :: "(nat \<Rightarrow> real) \<Rightarrow> server" where
  "initial_server rnd =
     \<lparr>simulationConfigs =
        [(''sim-101-finance'',
            \<lparr>config_id = ''sim-101-finance'', config_name = ''Financial Analyst Interview'',
             primaryModel = ''gpt-4o'', secondaryModel = ''claude-3-sonnet''\<rparr>),
         (''sim-202-engineering'',
            \<lparr>config_id = ''sim-202-engineering'', config_name = ''Software Engineer Interview'',
             primaryModel = ''claude-3-sonnet'', secondaryModel = ''gpt-4o''\<rparr>)],
      modelHealthStatus =
        [(''gpt-4o'', \<lparr>status = UNKNOWN, latency = None\<rparr>),
         (''claude-3-sonnet'', \<lparr>status = UNKNOWN, latency = None\<rparr>)],
      console = [],
      random_source = rnd,
      random_calls = 0\<rparr>"

subsection \<open>Runtime services\<close>

definition console_log :: "js_text \<Rightarrow> server \<Rightarrow> server" where
  "console_log line s = s\<lparr>console := console s @ [line]\<rparr>"

definition Math_random :: "server \<Rightarrow> real \<times> server" where
  "Math_random s = (random_source s (random_calls s), s\<lparr>random_calls := Suc (random_calls s)\<rparr>)"

text \<open>\<^verbatim>\<open>Math.round\<close> rounds to the nearest integer, a half upwards.\<close>

definition Math_round :: "real \<Rightarrow> real" where
  "Math_round x = of_int \<lfloor>x + 1 / 2\<rfloor>"

text \<open>What a template literal interpolates: a string in quotes, \<^verbatim>\<open>undefined\<close>,
  a status, a latency.\<close>

definition quoted :: "string \<Rightarrow> string" where
  "quoted x = CHR 0x27 # x @ [CHR 0x27]"

fun status_text :: "health_status \<Rightarrow> string" where
  "status_text UNKNOWN = ''UNKNOWN''"
| "status_text HEALTHY = ''HEALTHY''"
| "status_text UNHEALTHY = ''UNHEALTHY''"

definition show_string :: "string option \<Rightarrow> string" where
  "show_string v = (case v of None \<Rightarrow> ''undefined'' | Some x \<Rightarrow> x)"

definition show_status :: "health_status option \<Rightarrow> string" where
  "show_status v = (case v of None \<Rightarrow> ''undefined'' | Some x \<Rightarrow> status_text x)"

definition show_latency :: "real option option \<Rightarrow> js_text" where
  "show_latency v =
     (case v of
        None \<Rightarrow> [Text ''undefined'']
      | Some None \<Rightarrow> [Text ''null'']
      | Some (Some x) \<Rightarrow> [Number x])"

subsection \<open>The mock probe (lines 43--60)\<close>

text \<open>
  \<^verbatim>\<open>await mockCheckLLMHealth(modelName)\<close>: the line logged, the three calls of
  \<^verbatim>\<open>Math.random\<close> in the order they happen (the delay of the timer, the failure draw, the
  latency), and the value the promise resolves to. The promise always resolves; it is
  never rejected. The delay only decides when the timer fires.
\<close>

definition mockCheckLLMHealth :: "string \<Rightarrow> server \<Rightarrow> ProbeResult \<times> server" where
  "mockCheckLLMHealth modelName s =
     (let s1 = console_log [Text (''[Health Check] Pinging '' @ modelName @ ''...'')] s;
          (r0, s2) = Math_random s1;
          delay = 50 + r0 * 500;
          (r1, s3) = Math_random s2
      in if r1 < 15 / 100 then
           (let (r2, s4) = Math_random s3
            in (\<lparr>success = False, result_latency = 5000 + r2 * 1000\<rparr>, s4))
         else
           (let (r2, s4) = Math_random s3;
                latency = 100 + r2 * 400
            in (\<lparr>success = True, result_latency = Math_round latency\<rparr>, s4)))"

subsection \<open>Health monitoring (lines 67--78)\<close>

text \<open>Lines 70--76, the body of the loop after the probe has answered.\<close>

definition record_health :: "string \<Rightarrow> ProbeResult \<Rightarrow> server \<Rightarrow> server" where
  "record_health modelName result s =
     (if success result \<and> result_latency result < LATENCY_THRESHOLD_MS then
        console_log
          [Text (''[Health Check] '' @ modelName @ '' | Status: HEALTHY, Latency: ''),
           Number (result_latency result), Text ''ms'']
          (s\<lparr>modelHealthStatus :=
               js_set modelName \<lparr>status = HEALTHY, latency = Some (result_latency result)\<rparr>
                 (modelHealthStatus s)\<rparr>)
      else
        console_log
          [Text (''[Health Check] '' @ modelName @ '' | Status: UNHEALTHY, Latency: ''),
           Number (result_latency result), Text ''ms (Threshold: '',
           Number LATENCY_THRESHOLD_MS, Text ''ms)'']
          (s\<lparr>modelHealthStatus :=
               js_set modelName \<lparr>status = UNHEALTHY, latency = Some (result_latency result)\<rparr>
                 (modelHealthStatus s)\<rparr>))"

text \<open>One pass of the loop body, lines 69--76.\<close>

definition probe_model :: "string \<Rightarrow> server \<Rightarrow> server" where
  "probe_model modelName s =
     (let (result, s') = mockCheckLLMHealth modelName s
      in record_health modelName result s')"

text \<open>The loop over the keys that remain to be visited. The body assigns to existing
  keys only, so the keys are those the object had when the loop began.\<close>

fun probe_models :: "string list \<Rightarrow> server \<Rightarrow> server" where
  "probe_models [] s = s"
| "probe_models (modelName # rest) s = probe_models rest (probe_model modelName s)"

definition updateAllModelsHealth :: "server \<Rightarrow> server" where
  "updateAllModelsHealth s = probe_models (js_keys (modelHealthStatus s)) s"

subsection \<open>The endpoint \<^verbatim>\<open>POST /api/resolve-model\<close> (lines 87--121)\<close>

text \<open>
  The two error responses of the handler, and the \<^verbatim>\<open>TypeError\<close> that reading a property
  of \<^verbatim>\<open>undefined\<close> throws (the handler does not catch it; the framework answers 500).
\<close>

datatype http_error =
    BadRequest string
  | NotFound string
  | TypeError

text \<open>The body of the 200 response. \<open>modelToUse\<close> is \<open>None\<close> when the expression is
  \<^verbatim>\<open>undefined\<close>; \<open>details\<close> is the object \<^verbatim>\<open>health\<close> as read from the health table.\<close>

record ResolutionResult =
  modelToUse :: "string option"
  fallbackOccurred :: bool
  reason :: js_text
  details :: "ModelHealth js_value"

text \<open>
  The handler, given the field \<^verbatim>\<open>simulationId\<close> of the request body: \<open>None\<close> when the
  body has none, a string otherwise (\<^verbatim>\<open>!simulationId\<close> holds for a missing and for an
  empty string). An id that is a JSON number, boolean, array or object is outside the
  model. It returns the response and the state after the call.
\<close>

definition resolve_model ::
  "string option \<Rightarrow> server \<Rightarrow> (http_error + ResolutionResult) \<times> server" where
  "resolve_model simulationId s =
     (case simulationId of
        None \<Rightarrow> (Inl (BadRequest ''simulationId is required''), s)
      | Some sid \<Rightarrow>
          if sid = [] then (Inl (BadRequest ''simulationId is required''), s)
          else
            (case js_get (simulationConfigs s) sid of
               Undefined \<Rightarrow>
                 (Inl (NotFound (''Simulation config for '' @ quoted sid @ '' not found.'')), s)
             | config \<Rightarrow>
                 (let primary = js_field primaryModel config;
                      health = js_get (modelHealthStatus s) (show_string primary)
                  in case health of
                       Undefined \<Rightarrow> (Inl TypeError, s)
                     | _ \<Rightarrow>
                         if js_field status health = Some HEALTHY then
                           (Inr \<lparr>modelToUse = primary,
                                 fallbackOccurred = False,
                                 reason = [Text (''Primary model '' @ quoted (show_string primary)
                                   @ '' is healthy.'')],
                                 details = health\<rparr>,
                            console_log
                              [Text (''[Resolver] Primary model '' @ quoted (show_string primary)
                                 @ '' is healthy. Assigning to interview.'')] s)
                         else
                           (let secondary = js_field secondaryModel config
                            in (Inr \<lparr>modelToUse = secondary,
                                      fallbackOccurred = True,
                                      reason =
                                        [Text (''Primary model '' @ quoted (show_string primary)
                                           @ '' is unhealthy (Status: ''
                                           @ show_status (js_field status health)
                                           @ '', Latency: '')]
                                        @ show_latency (js_field latency health)
                                        @ [Text ''ms).''],
                                      details = health\<rparr>,
                                console_log
                                  [Text (''[FALLBACK] Primary model '' @ quoted (show_string primary)
                                     @ '' is UNHEALTHY. Falling back to ''
                                     @ quoted (show_string secondary) @ ''.'')] s)))))"

subsection \<open>Executions\<close>

text \<open>
  The event loop runs one callback at a time. Between two \<^verbatim>\<open>await\<close>s of the probe cycle
  a request may be served, so an execution is a sequence of two kinds of event: a pass
  of the loop body for a model (\<open>ProbeCompleted\<close>; the loop visits own keys of the
  health table only) and a request handled (\<open>ResolveRequest\<close>). A pass of the loop
  body is one step: the health table changes only at its end, so a request served while
  the probe is awaited reads the table as it was before the pass.
\<close>

datatype event = ProbeCompleted string | ResolveRequest "string option"

fun step :: "event \<Rightarrow> server \<Rightarrow> server" where
  "step (ProbeCompleted modelName) s = probe_model modelName s"
| "step (ResolveRequest simulationId) s = snd (resolve_model simulationId s)"

fun run :: "event list \<Rightarrow> server \<Rightarrow> server" where
  "run [] s = s"
| "run (e # es) s = run es (step e s)"

section \<open>Properties\<close>

subsection \<open>Reading and writing objects\<close>

lemma js_get_js_set:
  "js_get (js_set k v obj) k' = (if k' = k then Own v else js_get obj k')"
  by (simp add: js_get_def js_set_def update_conv')

lemma js_keys_js_set:
  "js_keys (js_set k v obj) = (if k \<in> set (js_keys obj) then js_keys obj else js_keys obj @ [k])"
  by (simp add: js_keys_def js_set_def update_keys)

subsection \<open>What each operation leaves alone\<close>

lemma console_log_fields [simp]:
  "simulationConfigs (console_log l s) = simulationConfigs s"
  "modelHealthStatus (console_log l s) = modelHealthStatus s"
  "random_source (console_log l s) = random_source s"
  "random_calls (console_log l s) = random_calls s"
  "console (console_log l s) = console s @ [l]"
  by (simp_all add: console_log_def)

lemma Math_random_fields [simp]:
  "fst (Math_random s) = random_source s (random_calls s)"
  "simulationConfigs (snd (Math_random s)) = simulationConfigs s"
  "modelHealthStatus (snd (Math_random s)) = modelHealthStatus s"
  "random_source (snd (Math_random s)) = random_source s"
  "random_calls (snd (Math_random s)) = Suc (random_calls s)"
  "console (snd (Math_random s)) = console s"
  by (simp_all add: Math_random_def)

text \<open>The outcome of the mock probe, from the second and third number it draws.\<close>

lemma mock_result:
  "fst (mockCheckLLMHealth m s) =
     (if random_source s (Suc (random_calls s)) < 15 / 100
      then \<lparr>success = False,
            result_latency = 5000 + random_source s (Suc (Suc (random_calls s))) * 1000\<rparr>
      else \<lparr>success = True,
            result_latency = Math_round (100 + random_source s (Suc (Suc (random_calls s))) * 400)\<rparr>)"
  by (simp add: mockCheckLLMHealth_def Let_def split_beta)

lemma mock_result_cong:
  "random_source s' = random_source s \<Longrightarrow> random_calls s' = random_calls s \<Longrightarrow>
   fst (mockCheckLLMHealth m s') = fst (mockCheckLLMHealth m s)"
  by (simp add: mock_result)

lemma mock_state [simp]:
  "simulationConfigs (snd (mockCheckLLMHealth m s)) = simulationConfigs s"
  "modelHealthStatus (snd (mockCheckLLMHealth m s)) = modelHealthStatus s"
  "random_source (snd (mockCheckLLMHealth m s)) = random_source s"
  "random_calls (snd (mockCheckLLMHealth m s)) = random_calls s + 3"
  "console (snd (mockCheckLLMHealth m s)) =
     console s @ [[Text (''[Health Check] Pinging '' @ m @ ''...'')]]"
  by (simp_all add: mockCheckLLMHealth_def Let_def split_beta)

lemma record_health_fields [simp]:
  "simulationConfigs (record_health m r s) = simulationConfigs s"
  "random_source (record_health m r s) = random_source s"
  "random_calls (record_health m r s) = random_calls s"
  by (simp_all add: record_health_def)

lemma record_health_table:
  "modelHealthStatus (record_health m r s) =
     js_set m \<lparr>status = (if success r \<and> result_latency r < LATENCY_THRESHOLD_MS
                          then HEALTHY else UNHEALTHY),
               latency = Some (result_latency r)\<rparr> (modelHealthStatus s)"
  by (simp add: record_health_def)

lemma probe_model_fields [simp]:
  "simulationConfigs (probe_model m s) = simulationConfigs s"
  "random_source (probe_model m s) = random_source s"
  "random_calls (probe_model m s) = random_calls s + 3"
  by (simp_all add: probe_model_def split_beta)

lemma probe_model_table:
  "modelHealthStatus (probe_model m s) =
     js_set m \<lparr>status = (if success (fst (mockCheckLLMHealth m s)) \<and>
                            result_latency (fst (mockCheckLLMHealth m s)) < LATENCY_THRESHOLD_MS
                          then HEALTHY else UNHEALTHY),
               latency = Some (result_latency (fst (mockCheckLLMHealth m s)))\<rparr>
       (modelHealthStatus s)"
  by (simp add: probe_model_def split_beta record_health_table)

lemma probe_model_other:
  "k \<noteq> m \<Longrightarrow> js_get (modelHealthStatus (probe_model m s)) k = js_get (modelHealthStatus s) k"
  by (simp add: probe_model_table js_get_js_set)

lemma probe_model_keys:
  "m \<in> set (js_keys (modelHealthStatus s)) \<Longrightarrow>
   js_keys (modelHealthStatus (probe_model m s)) = js_keys (modelHealthStatus s)"
  by (simp add: probe_model_table js_keys_js_set)

lemma resolve_state [simp]:
  "simulationConfigs (snd (resolve_model sid s)) = simulationConfigs s"
  "modelHealthStatus (snd (resolve_model sid s)) = modelHealthStatus s"
  "random_source (snd (resolve_model sid s)) = random_source s"
  "random_calls (snd (resolve_model sid s)) = random_calls s"
  by (simp_all add: resolve_model_def Let_def split: option.splits js_value.splits)

subsection \<open>The loop of the probe cycle\<close>

lemma probe_models_fields [simp]:
  "simulationConfigs (probe_models ks s) = simulationConfigs s"
  "random_source (probe_models ks s) = random_source s"
  "random_calls (probe_models ks s) = random_calls s + 3 * length ks"
  by (induction ks arbitrary: s) simp_all

lemma probe_models_other:
  "k \<notin> set ks \<Longrightarrow>
   js_get (modelHealthStatus (probe_models ks s)) k = js_get (modelHealthStatus s) k"
  by (induction ks arbitrary: s) (simp_all add: probe_model_other)

lemma probe_models_keys:
  "set ks \<subseteq> set (js_keys (modelHealthStatus s)) \<Longrightarrow>
   js_keys (modelHealthStatus (probe_models ks s)) = js_keys (modelHealthStatus s)"
  by (induction ks arbitrary: s) (simp_all add: probe_model_keys)

lemma probe_models_nth:
  assumes "distinct ks" and "i < length ks"
  shows "js_get (modelHealthStatus (probe_models ks s)) (ks ! i) =
     js_get (modelHealthStatus
       (probe_model (ks ! i) (s\<lparr>random_calls := random_calls s + 3 * i\<rparr>))) (ks ! i)"
  using assms
proof (induction ks arbitrary: s i)
  case Nil
  then show ?case by simp
next
  case (Cons k ks)
  show ?case
  proof (cases i)
    case 0
    with Cons.prems show ?thesis
      by (simp add: probe_models_other probe_model_table js_get_js_set mock_result)
  next
    case (Suc j)
    with Cons.prems have j: "j < length ks" and d: "distinct ks" by simp_all
    have "js_get (modelHealthStatus (probe_models ks (probe_model k s))) (ks ! j) =
          js_get (modelHealthStatus (probe_model (ks ! j)
            ((probe_model k s)\<lparr>random_calls := random_calls (probe_model k s) + 3 * j\<rparr>))) (ks ! j)"
      by (rule Cons.IH [OF d j])
    then show ?thesis
      using Suc by (simp add: probe_model_table js_get_js_set mock_result add.commute)
  qed
qed

subsection \<open>Executions\<close>

lemma run_append: "run (xs @ ys) s = run ys (run xs s)"
  by (induction xs arbitrary: s) simp_all

lemma probe_models_run: "probe_models ks s = run (map ProbeCompleted ks) s"
  by (induction ks arbitrary: s) simp_all

lemma step_configs [simp]: "simulationConfigs (step e s) = simulationConfigs s"
  by (cases e) simp_all

lemma run_configs [simp]: "simulationConfigs (run evs s) = simulationConfigs s"
  by (induction evs arbitrary: s) simp_all

lemma step_other:
  "e \<noteq> ProbeCompleted m \<Longrightarrow>
   js_get (modelHealthStatus (step e s)) m = js_get (modelHealthStatus s) m"
  by (cases e) (auto simp add: probe_model_other)

lemma run_other:
  "ProbeCompleted m \<notin> set evs \<Longrightarrow>
   js_get (modelHealthStatus (run evs s)) m = js_get (modelHealthStatus s) m"
  by (induction evs arbitrary: s) (auto simp add: step_other)

lemma step_keeps_entry:
  "js_get (modelHealthStatus s) m = Own h \<Longrightarrow> \<exists>h'. js_get (modelHealthStatus (step e s)) m = Own h'"
  by (cases e) (auto simp add: probe_model_table js_get_js_set)

lemma run_keeps_entry:
  "js_get (modelHealthStatus s) m = Own h \<Longrightarrow> \<exists>h'. js_get (modelHealthStatus (run evs s)) m = Own h'"
proof (induction evs arbitrary: s h)
  case Nil
  then show ?case by simp
next
  case (Cons e evs)
  from step_keeps_entry [OF Cons.prems, of e]
  obtain h' where "js_get (modelHealthStatus (step e s)) m = Own h'" ..
  from Cons.IH [OF this] show ?case by simp
qed

lemma run_last_probe:
  assumes "ProbeCompleted m \<notin> set after"
  shows "js_get (modelHealthStatus (run (before @ ProbeCompleted m # after) s)) m =
     Own \<lparr>status = (if success (fst (mockCheckLLMHealth m (run before s))) \<and>
                       result_latency (fst (mockCheckLLMHealth m (run before s))) < LATENCY_THRESHOLD_MS
                    then HEALTHY else UNHEALTHY),
          latency = Some (result_latency (fst (mockCheckLLMHealth m (run before s))))\<rparr>"
  by (simp add: run_append run_other [OF assms] probe_model_table js_get_js_set)

lemma initial_entries:
  "m \<in> set (js_keys (modelHealthStatus (initial_server rnd))) \<Longrightarrow>
   js_get (modelHealthStatus (initial_server rnd)) m = Own \<lparr>status = UNKNOWN, latency = None\<rparr>"
  by (auto simp add: initial_server_def js_keys_def js_get_def)

text \<open>In every execution of the server, each configured simulation has its own
  configuration and its primary model has an own entry in the health table.\<close>

lemma configured_simulations_resolvable:
  assumes "map_of (simulationConfigs (initial_server rnd)) sid = Some c"
  shows "sid \<noteq> [] \<and> js_get (simulationConfigs (run evs (initial_server rnd))) sid = Own c \<and>
         (\<exists>h. js_get (modelHealthStatus (run evs (initial_server rnd))) (primaryModel c) = Own h)"
proof -
  from assms have sid: "sid \<noteq> []" and c: "js_get (simulationConfigs (initial_server rnd)) sid = Own c"
    and p: "primaryModel c \<in> set (js_keys (modelHealthStatus (initial_server rnd)))"
    by (auto simp add: initial_server_def js_get_def js_keys_def split: if_splits)
  from run_keeps_entry [OF initial_entries [OF p]] sid c show ?thesis by simp
qed

subsection \<open>The resolver, case by case\<close>

lemma resolve_own:
  assumes "sid \<noteq> []"
    and "js_get (simulationConfigs s) sid = Own c"
    and "js_get (modelHealthStatus s) (primaryModel c) = Own h"
  shows "fst (resolve_model (Some sid) s) =
     Inr (if status h = HEALTHY then
            \<lparr>modelToUse = Some (primaryModel c), fallbackOccurred = False,
             reason = [Text (''Primary model '' @ quoted (primaryModel c) @ '' is healthy.'')],
             details = Own h\<rparr>
          else
            \<lparr>modelToUse = Some (secondaryModel c), fallbackOccurred = True,
             reason = [Text (''Primary model '' @ quoted (primaryModel c)
                         @ '' is unhealthy (Status: '' @ status_text (status h) @ '', Latency: '')]
                      @ show_latency (Some (latency h)) @ [Text ''ms).''],
             details = Own h\<rparr>)"
  using assms by (simp add: resolve_model_def Let_def show_string_def show_status_def)

text \<open>The same case in full: the response, and the state after the call.\<close>

lemma resolve_own_full:
  assumes "sid \<noteq> []"
    and "js_get (simulationConfigs s) sid = Own c"
    and "js_get (modelHealthStatus s) (primaryModel c) = Own h"
  shows "resolve_model (Some sid) s =
     (if status h = HEALTHY then
        (Inr \<lparr>modelToUse = Some (primaryModel c), fallbackOccurred = False,
              reason = [Text (''Primary model '' @ quoted (primaryModel c) @ '' is healthy.'')],
              details = Own h\<rparr>,
         console_log
           [Text (''[Resolver] Primary model '' @ quoted (primaryModel c)
              @ '' is healthy. Assigning to interview.'')] s)
      else
        (Inr \<lparr>modelToUse = Some (secondaryModel c), fallbackOccurred = True,
              reason = [Text (''Primary model '' @ quoted (primaryModel c)
                          @ '' is unhealthy (Status: '' @ status_text (status h) @ '', Latency: '')]
                       @ show_latency (Some (latency h)) @ [Text ''ms).''],
              details = Own h\<rparr>,
         console_log
           [Text (''[FALLBACK] Primary model '' @ quoted (primaryModel c)
              @ '' is UNHEALTHY. Falling back to '' @ quoted (secondaryModel c) @ ''.'')] s))"
  using assms by (simp add: resolve_model_def Let_def show_string_def show_status_def)

lemma resolve_response_cong:
  assumes "simulationConfigs s' = simulationConfigs s"
    and "modelHealthStatus s' = modelHealthStatus s"
  shows "fst (resolve_model sid s') = fst (resolve_model sid s)"
proof (cases sid)
  case None
  then show ?thesis by (simp add: resolve_model_def)
next
  case (Some x)
  show ?thesis
  proof (cases "js_get (simulationConfigs s) x")
    case (Own c)
    then show ?thesis
      by (cases "js_get (modelHealthStatus s) (primaryModel c)")
         (simp_all add: resolve_model_def Let_def assms Some show_string_def)
  next
    case Inherited
    then show ?thesis
      by (cases "js_get (modelHealthStatus s) ''undefined''")
         (simp_all add: resolve_model_def Let_def assms Some show_string_def)
  next
    case Undefined
    then show ?thesis by (simp add: resolve_model_def assms Some)
  qed
qed

lemma resolve_missing_or_empty:
  "resolve_model None s = (Inl (BadRequest ''simulationId is required''), s)"
  "resolve_model (Some []) s = (Inl (BadRequest ''simulationId is required''), s)"
  by (simp_all add: resolve_model_def)

lemma resolve_unknown:
  assumes "sid \<noteq> []" and "js_get (simulationConfigs s) sid = Undefined"
  shows "resolve_model (Some sid) s =
           (Inl (NotFound (''Simulation config for '' @ quoted sid @ '' not found.'')), s)"
  using assms by (simp add: resolve_model_def)

lemma resolve_never_changes_objects:
  "modelHealthStatus (snd (resolve_model sid s)) = modelHealthStatus s \<and>
   simulationConfigs (snd (resolve_model sid s)) = simulationConfigs s"
  by simp

subsection \<open>The console during a cycle\<close>

lemma mock_ping_logged:
  "[Text (''[Health Check] Pinging '' @ m @ ''...'')] \<in> set (console (probe_model m s))"
  by (simp add: probe_model_def split_beta record_health_def)

lemma probe_model_console_grows: "set (console s) \<subseteq> set (console (probe_model m s))"
  by (auto simp add: probe_model_def split_beta record_health_def)

lemma probe_models_console_grows: "set (console s) \<subseteq> set (console (probe_models ks s))"
proof (induction ks arbitrary: s)
  case Nil
  show ?case by simp
next
  case (Cons k ks)
  have "set (console s) \<subseteq> set (console (probe_model k s))"
    by (rule probe_model_console_grows)
  also have "\<dots> \<subseteq> set (console (probe_models ks (probe_model k s)))"
    by (rule Cons.IH)
  finally show ?case by simp
qed

lemma probe_models_pings:
  "k \<in> set ks \<Longrightarrow>
   [Text (''[Health Check] Pinging '' @ k @ ''...'')] \<in> set (console (probe_models ks s))"
proof (induction ks arbitrary: s)
  case Nil
  then show ?case by simp
next
  case (Cons a ks)
  show ?case
  proof (cases "k = a")
    case True
    have "[Text (''[Health Check] Pinging '' @ a @ ''...'')] \<in> set (console (probe_model a s))"
      by (rule mock_ping_logged)
    with probe_models_console_grows [of "probe_model a s" ks] True show ?thesis by auto
  next
    case False
    with Cons.prems have "k \<in> set ks" by simp
    from Cons.IH [OF this] show ?thesis by simp
  qed
qed

section \<open>The claims\<close>

text \<open>
  \<^bold>\<open>C1\<close> (fallback law). For a simulation id that has a configuration, whose primary
  model has an entry in the health table, the handler answers with a result; in it
  \<open>fallbackOccurred\<close> is true exactly when the status of that entry is not \<open>HEALTHY\<close>
  (so for \<open>UNHEALTHY\<close> and for \<open>UNKNOWN\<close>), and \<open>modelToUse\<close> is then the secondary
  model, the primary model otherwise. (An empty id is refused before any lookup; no
  configured id is empty, see \<open>configured_simulations_resolvable\<close>, which also shows that
  the hypotheses hold for both configured simulations in every execution.)
\<close>

theorem fallback_law:
  assumes "sid \<noteq> []"
    and "js_get (simulationConfigs s) sid = Own c"
    and "js_get (modelHealthStatus s) (primaryModel c) = Own h"
  shows "\<exists>r. fst (resolve_model (Some sid) s) = Inr r \<and>
             fallbackOccurred r = (status h \<noteq> HEALTHY) \<and>
             modelToUse r = Some (if status h \<noteq> HEALTHY then secondaryModel c else primaryModel c)"
  using resolve_own [OF assms] by simp

theorem fallback_law_witness:
  "(\<exists>r. fst (resolve_model (Some ''sim-101-finance'') (initial_server (\<lambda>n. 1 / 2))) = Inr r \<and>
        fallbackOccurred r = True \<and> modelToUse r = Some ''claude-3-sonnet'') \<and>
   (\<exists>r. fst (resolve_model (Some ''sim-101-finance'')
               ((initial_server (\<lambda>n. 1 / 2))
                  \<lparr>modelHealthStatus :=
                     [(''gpt-4o'', \<lparr>status = HEALTHY, latency = Some 120\<rparr>),
                      (''claude-3-sonnet'', \<lparr>status = UNHEALTHY, latency = Some 5200\<rparr>)]\<rparr>)) = Inr r \<and>
        fallbackOccurred r = False \<and> modelToUse r = Some ''gpt-4o'')"
  using
    fallback_law [of "''sim-101-finance''" "initial_server (\<lambda>n. 1 / 2)"
      "\<lparr>config_id = ''sim-101-finance'', config_name = ''Financial Analyst Interview'',
        primaryModel = ''gpt-4o'', secondaryModel = ''claude-3-sonnet''\<rparr>"
      "\<lparr>status = UNKNOWN, latency = None\<rparr>"]
    fallback_law [of "''sim-101-finance''"
      "(initial_server (\<lambda>n. 1 / 2))
         \<lparr>modelHealthStatus :=
            [(''gpt-4o'', \<lparr>status = HEALTHY, latency = Some 120\<rparr>),
             (''claude-3-sonnet'', \<lparr>status = UNHEALTHY, latency = Some 5200\<rparr>)]\<rparr>"
      "\<lparr>config_id = ''sim-101-finance'', config_name = ''Financial Analyst Interview'',
        primaryModel = ''gpt-4o'', secondaryModel = ''claude-3-sonnet''\<rparr>"
      "\<lparr>status = HEALTHY, latency = Some 120\<rparr>"]
  by (simp add: initial_server_def js_get_def)

text \<open>
  \<^bold>\<open>C2\<close> (classification law). Whatever outcome the loop body of the cycle is given
  for a model, the status it stores for the model is \<open>HEALTHY\<close> exactly when the outcome
  reports success and a latency strictly below 1500 ms, and \<open>UNHEALTHY\<close> for every other
  outcome (a failure, or a success whose latency is at least the threshold).
\<close>

theorem classification_law:
  "\<exists>h. js_get (modelHealthStatus (record_health m r s)) m = Own h \<and>
        (status h = HEALTHY) = (success r \<and> result_latency r < 1500) \<and>
        (status h = UNHEALTHY) = (\<not> (success r \<and> result_latency r < 1500))"
  by (simp add: record_health_table js_get_js_set LATENCY_THRESHOLD_MS_def)

text \<open>
  \<^bold>\<open>C3\<close>. For a simulation id that has a configuration, whose primary model has an
  entry \<open>h\<close> in the health table, the handler answers with a result whose \<open>details\<close> is
  that entry \<open>h\<close>, on the healthy path and on the fallback path alike. No other entry of
  the table is read: with any table \<open>t\<close> in place of the health table that holds the same
  entry for the primary model (whatever it holds for the secondary model), the handler
  gives the same response and leaves the same state, console included, apart from the
  table \<open>t\<close> itself.
\<close>

theorem details_is_primary_entry:
  assumes "sid \<noteq> []"
    and "js_get (simulationConfigs s) sid = Own c"
    and "js_get (modelHealthStatus s) (primaryModel c) = Own h"
  shows "\<exists>r. fst (resolve_model (Some sid) s) = Inr r \<and>
             details r = Own h \<and>
             (\<forall>t. js_get t (primaryModel c) = Own h \<longrightarrow>
                  fst (resolve_model (Some sid) (s\<lparr>modelHealthStatus := t\<rparr>)) = Inr r \<and>
                  snd (resolve_model (Some sid) (s\<lparr>modelHealthStatus := t\<rparr>)) =
                    (snd (resolve_model (Some sid) s))\<lparr>modelHealthStatus := t\<rparr>)"
proof -
  have other: "resolve_model (Some sid) (s\<lparr>modelHealthStatus := t\<rparr>) =
      (fst (resolve_model (Some sid) s),
       (snd (resolve_model (Some sid) s))\<lparr>modelHealthStatus := t\<rparr>)"
    if t: "js_get t (primaryModel c) = Own h" for t
  proof -
    have "js_get (simulationConfigs (s\<lparr>modelHealthStatus := t\<rparr>)) sid = Own c"
      using assms(2) by simp
    moreover have "js_get (modelHealthStatus (s\<lparr>modelHealthStatus := t\<rparr>)) (primaryModel c) = Own h"
      using t by simp
    ultimately show ?thesis
      by (simp add: resolve_own_full [OF assms(1)] resolve_own_full [OF assms] console_log_def)
  qed
  show ?thesis
  proof (cases "status h = HEALTHY")
    case True
    then show ?thesis
      using other by (simp add: resolve_own_full [OF assms])
  next
    case False
    then show ?thesis
      using other by (simp add: resolve_own_full [OF assms])
  qed
qed

theorem details_is_primary_entry_witness:
  "fst (resolve_model (Some ''sim-101-finance'')
          ((initial_server (\<lambda>n. 1 / 2))
             \<lparr>modelHealthStatus :=
                [(''gpt-4o'', \<lparr>status = HEALTHY, latency = Some 120\<rparr>),
                 (''claude-3-sonnet'', \<lparr>status = UNHEALTHY, latency = Some 5200\<rparr>)]\<rparr>)) =
     Inr \<lparr>modelToUse = Some ''gpt-4o'', fallbackOccurred = False,
          reason = [Text ''Primary model 'gpt-4o' is healthy.''],
          details = Own \<lparr>status = HEALTHY, latency = Some 120\<rparr>\<rparr> \<and>
   fst (resolve_model (Some ''sim-101-finance'')
          ((initial_server (\<lambda>n. 1 / 2))
             \<lparr>modelHealthStatus :=
                [(''gpt-4o'', \<lparr>status = HEALTHY, latency = Some 120\<rparr>),
                 (''claude-3-sonnet'', \<lparr>status = HEALTHY, latency = Some 300\<rparr>)]\<rparr>)) =
     Inr \<lparr>modelToUse = Some ''gpt-4o'', fallbackOccurred = False,
          reason = [Text ''Primary model 'gpt-4o' is healthy.''],
          details = Own \<lparr>status = HEALTHY, latency = Some 120\<rparr>\<rparr> \<and>
   fst (resolve_model (Some ''sim-101-finance'')
          ((initial_server (\<lambda>n. 1 / 2))
             \<lparr>modelHealthStatus :=
                [(''gpt-4o'', \<lparr>status = UNHEALTHY, latency = Some 5200\<rparr>),
                 (''claude-3-sonnet'', \<lparr>status = HEALTHY, latency = Some 300\<rparr>)]\<rparr>)) =
     Inr \<lparr>modelToUse = Some ''claude-3-sonnet'', fallbackOccurred = True,
          reason = [Text ''Primary model 'gpt-4o' is unhealthy (Status: UNHEALTHY, Latency: '',
                    Number 5200, Text ''ms).''],
          details = Own \<lparr>status = UNHEALTHY, latency = Some 5200\<rparr>\<rparr> \<and>
   fst (resolve_model (Some ''sim-101-finance'')
          ((initial_server (\<lambda>n. 1 / 2))
             \<lparr>modelHealthStatus :=
                [(''gpt-4o'', \<lparr>status = UNHEALTHY, latency = Some 5200\<rparr>),
                 (''claude-3-sonnet'', \<lparr>status = UNKNOWN, latency = None\<rparr>)]\<rparr>)) =
     Inr \<lparr>modelToUse = Some ''claude-3-sonnet'', fallbackOccurred = True,
          reason = [Text ''Primary model 'gpt-4o' is unhealthy (Status: UNHEALTHY, Latency: '',
                    Number 5200, Text ''ms).''],
          details = Own \<lparr>status = UNHEALTHY, latency = Some 5200\<rparr>\<rparr>"
proof -
  let ?c = "\<lparr>config_id = ''sim-101-finance'', config_name = ''Financial Analyst Interview'',
             primaryModel = ''gpt-4o'', secondaryModel = ''claude-3-sonnet''\<rparr>"
  let ?hA = "\<lparr>status = HEALTHY, latency = Some (120::real)\<rparr>"
  let ?hB = "\<lparr>status = UNHEALTHY, latency = Some (5200::real)\<rparr>"
  let ?tA = "[(''gpt-4o'', ?hA), (''claude-3-sonnet'', \<lparr>status = UNHEALTHY, latency = Some 5200\<rparr>)]"
  let ?tA' = "[(''gpt-4o'', ?hA), (''claude-3-sonnet'', \<lparr>status = HEALTHY, latency = Some 300\<rparr>)]"
  let ?tB = "[(''gpt-4o'', ?hB), (''claude-3-sonnet'', \<lparr>status = HEALTHY, latency = Some 300\<rparr>)]"
  let ?tB' = "[(''gpt-4o'', ?hB), (''claude-3-sonnet'', \<lparr>status = UNKNOWN, latency = None\<rparr>)]"
  let ?sA = "(initial_server (\<lambda>n. 1 / 2))\<lparr>modelHealthStatus := ?tA\<rparr>"
  let ?sB = "(initial_server (\<lambda>n. 1 / 2))\<lparr>modelHealthStatus := ?tB\<rparr>"
  let ?rA = "\<lparr>modelToUse = Some ''gpt-4o'', fallbackOccurred = False,
              reason = [Text ''Primary model 'gpt-4o' is healthy.''],
              details = Own ?hA\<rparr>"
  let ?rB = "\<lparr>modelToUse = Some ''claude-3-sonnet'', fallbackOccurred = True,
              reason = [Text ''Primary model 'gpt-4o' is unhealthy (Status: UNHEALTHY, Latency: '',
                        Number 5200, Text ''ms).''],
              details = Own ?hB\<rparr>"
  have id: "''sim-101-finance'' \<noteq> []" by simp
  have cA: "js_get (simulationConfigs ?sA) ''sim-101-finance'' = Own ?c"
    and cB: "js_get (simulationConfigs ?sB) ''sim-101-finance'' = Own ?c"
    by (simp_all add: initial_server_def js_get_def)
  have hA: "js_get (modelHealthStatus ?sA) (primaryModel ?c) = Own ?hA"
    and hB: "js_get (modelHealthStatus ?sB) (primaryModel ?c) = Own ?hB"
    by (simp_all add: js_get_def)
  have tA': "js_get ?tA' (primaryModel ?c) = Own ?hA"
    and tB': "js_get ?tB' (primaryModel ?c) = Own ?hB"
    by (simp_all add: js_get_def)
  have rA: "fst (resolve_model (Some ''sim-101-finance'') ?sA) = Inr ?rA"
    using resolve_own [OF id cA hA] by (simp add: quoted_def)
  have rB: "fst (resolve_model (Some ''sim-101-finance'') ?sB) = Inr ?rB"
    using resolve_own [OF id cB hB] by (simp add: quoted_def show_latency_def)
  from details_is_primary_entry [OF id cA hA] rA tA'
  have "fst (resolve_model (Some ''sim-101-finance'') (?sA\<lparr>modelHealthStatus := ?tA'\<rparr>)) = Inr ?rA"
    by auto
  moreover from details_is_primary_entry [OF id cB hB] rB tB'
  have "fst (resolve_model (Some ''sim-101-finance'') (?sB\<lparr>modelHealthStatus := ?tB'\<rparr>)) = Inr ?rB"
    by auto
  ultimately show ?thesis
    using rA rB by simp
qed

text \<open>
  \<^bold>\<open>C4\<close> (error responses). A missing or empty id is answered with the input error
  and an id that is no key of the configurations with the not-found error, the state
  unchanged (\<open>resolve_missing_or_empty\<close>, \<open>resolve_unknown\<close>,
  \<open>resolve_never_changes_objects\<close>), unless the id names a property that the
  configurations object inherits. The id \<^verbatim>\<open>constructor\<close> has no configuration, yet
  \<^verbatim>\<open>simulationConfigs['constructor']\<close> is the inherited function \<^verbatim>\<open>Object\<close>, which is
  truthy: the not-found check is passed, \<^verbatim>\<open>config.primaryModel\<close> is \<^verbatim>\<open>undefined\<close>, the health
  table has no key \<^verbatim>\<open>undefined\<close>, and reading \<^verbatim>\<open>health.status\<close> throws a \<^verbatim>\<open>TypeError\<close>
  instead of the not-found error, at startup and after a probe cycle alike.
\<close>

theorem inherited_key_not_rejected:
  "map_of (simulationConfigs (initial_server rnd)) ''constructor'' = None \<and>
   fst (resolve_model (Some ''constructor'') (initial_server rnd)) = Inl TypeError \<and>
   fst (resolve_model (Some ''constructor'') (updateAllModelsHealth (initial_server rnd))) =
     Inl TypeError"
proof (intro conjI)
  show "map_of (simulationConfigs (initial_server rnd)) ''constructor'' = None"
    by (simp add: initial_server_def)
  show "fst (resolve_model (Some ''constructor'') (initial_server rnd)) = Inl TypeError"
    by (simp add: resolve_model_def initial_server_def js_get_def Object_prototype_keys_def
        Let_def show_string_def)
  let ?s = "updateAllModelsHealth (initial_server rnd)"
  have "''undefined'' \<notin> set (js_keys (modelHealthStatus (initial_server rnd)))"
    by (simp add: initial_server_def js_keys_def)
  then have "js_get (modelHealthStatus ?s) ''undefined'' =
      js_get (modelHealthStatus (initial_server rnd)) ''undefined''"
    unfolding updateAllModelsHealth_def by (rule probe_models_other)
  then have health: "js_get (modelHealthStatus ?s) ''undefined'' = Undefined"
    by (simp add: initial_server_def js_get_def Object_prototype_keys_def)
  have config: "js_get (simulationConfigs ?s) ''constructor'' = Inherited"
    by (simp add: updateAllModelsHealth_def)
       (simp add: initial_server_def js_get_def Object_prototype_keys_def)
  from health config show "fst (resolve_model (Some ''constructor'') ?s) = Inl TypeError"
    by (simp add: resolve_model_def Let_def show_string_def)
qed

text \<open>
  \<^bold>\<open>C5\<close>. In a probe cycle every model of the health table is probed and has its
  entry replaced. The model at position \<open>i\<close> of the table is probed when the probes before
  it have drawn \<open>3 * i\<close> random numbers; after the cycle its entry is the classification
  of the outcome \<open>r\<close> of that very probe, \<open>UNHEALTHY\<close> when the probe failed, whatever the
  outcomes of the other probes were. The console has the line of its probe, the table
  has the same keys in the same order, and three random numbers were drawn per model.
  The cycle is a total function: no outcome of a probe makes it stop or fail.
\<close>

theorem cycle_probes_every_model:
  assumes "distinct (js_keys (modelHealthStatus s))"
    and "i < length (js_keys (modelHealthStatus s))"
  shows "let ks = js_keys (modelHealthStatus s);
             r = fst (mockCheckLLMHealth (ks ! i) (s\<lparr>random_calls := random_calls s + 3 * i\<rparr>));
             s' = updateAllModelsHealth s
         in js_get (modelHealthStatus s') (ks ! i) =
              Own \<lparr>status = (if success r \<and> result_latency r < LATENCY_THRESHOLD_MS
                              then HEALTHY else UNHEALTHY),
                   latency = Some (result_latency r)\<rparr> \<and>
            [Text (''[Health Check] Pinging '' @ ks ! i @ ''...'')] \<in> set (console s') \<and>
            js_keys (modelHealthStatus s') = ks \<and>
            random_calls s' = random_calls s + 3 * length ks"
proof -
  let ?ks = "js_keys (modelHealthStatus s)"
  let ?r = "fst (mockCheckLLMHealth (?ks ! i) (s\<lparr>random_calls := random_calls s + 3 * i\<rparr>))"
  have "js_get (modelHealthStatus (probe_models ?ks s)) (?ks ! i) =
        js_get (modelHealthStatus
          (probe_model (?ks ! i) (s\<lparr>random_calls := random_calls s + 3 * i\<rparr>))) (?ks ! i)"
    by (rule probe_models_nth [OF assms])
  then have entry: "js_get (modelHealthStatus (updateAllModelsHealth s)) (?ks ! i) =
      Own \<lparr>status = (if success ?r \<and> result_latency ?r < LATENCY_THRESHOLD_MS
                      then HEALTHY else UNHEALTHY),
           latency = Some (result_latency ?r)\<rparr>"
    by (simp add: updateAllModelsHealth_def probe_model_table js_get_js_set)
  have "?ks ! i \<in> set ?ks"
    using assms(2) by simp
  then have ping: "[Text (''[Health Check] Pinging '' @ ?ks ! i @ ''...'')]
      \<in> set (console (updateAllModelsHealth s))"
    unfolding updateAllModelsHealth_def by (rule probe_models_pings)
  have keys: "js_keys (modelHealthStatus (updateAllModelsHealth s)) = ?ks"
    unfolding updateAllModelsHealth_def by (rule probe_models_keys) simp
  have calls: "random_calls (updateAllModelsHealth s) = random_calls s + 3 * length ?ks"
    by (simp add: updateAllModelsHealth_def)
  from entry ping keys calls show ?thesis
    unfolding Let_def by (intro conjI)
qed

theorem cycle_probes_every_model_witness:
  "js_get (modelHealthStatus
      (updateAllModelsHealth (initial_server (\<lambda>n. if n = 1 then 1 / 10 else 1 / 2)))) ''gpt-4o'' =
     Own \<lparr>status = UNHEALTHY, latency = Some 5500\<rparr> \<and>
   js_get (modelHealthStatus
      (updateAllModelsHealth (initial_server (\<lambda>n. if n = 1 then 1 / 10 else 1 / 2)))) ''claude-3-sonnet'' =
     Own \<lparr>status = HEALTHY, latency = Some 300\<rparr>"
  using
    cycle_probes_every_model [of "initial_server (\<lambda>n. if n = 1 then 1 / 10 else 1 / 2)" 0]
    cycle_probes_every_model [of "initial_server (\<lambda>n. if n = 1 then 1 / 10 else 1 / 2)" 1]
  by (simp add: initial_server_def js_keys_def Let_def mock_result Math_round_def
      LATENCY_THRESHOLD_MS_def)

text \<open>
  \<^bold>\<open>C7\<close>, as amended. When the primary model of a configuration has no entry in the
  health table (and is not the name of a property inherited from \<^verbatim>\<open>Object.prototype\<close>),
  \<^verbatim>\<open>health\<close> is \<^verbatim>\<open>undefined\<close> and reading \<^verbatim>\<open>health.status\<close> throws a \<^verbatim>\<open>TypeError\<close>: the
  handler produces no result and no fallback, writes nothing to the console and leaves
  the state as it was. The model is not read as \<open>UNKNOWN\<close>.
\<close>

theorem missing_entry_throws:
  assumes "sid \<noteq> []"
    and "js_get (simulationConfigs s) sid = Own c"
    and "js_get (modelHealthStatus s) (primaryModel c) = Undefined"
  shows "resolve_model (Some sid) s = (Inl TypeError, s)"
  using assms by (simp add: resolve_model_def Let_def show_string_def)

theorem missing_entry_throws_witness:
  "resolve_model (Some ''sim-404-design'')
      ((initial_server (\<lambda>n. 1 / 2))
         \<lparr>simulationConfigs :=
            [(''sim-404-design'',
              \<lparr>config_id = ''sim-404-design'', config_name = ''Designer Interview'',
               primaryModel = ''mistral-large'', secondaryModel = ''claude-3-sonnet''\<rparr>)]\<rparr>) =
     (Inl TypeError,
      (initial_server (\<lambda>n. 1 / 2))
         \<lparr>simulationConfigs :=
            [(''sim-404-design'',
              \<lparr>config_id = ''sim-404-design'', config_name = ''Designer Interview'',
               primaryModel = ''mistral-large'', secondaryModel = ''claude-3-sonnet''\<rparr>)]\<rparr>)"
  using missing_entry_throws
    [of "''sim-404-design''"
        "(initial_server (\<lambda>n. 1 / 2))
           \<lparr>simulationConfigs :=
              [(''sim-404-design'',
                \<lparr>config_id = ''sim-404-design'', config_name = ''Designer Interview'',
                 primaryModel = ''mistral-large'', secondaryModel = ''claude-3-sonnet''\<rparr>)]\<rparr>"
        "\<lparr>config_id = ''sim-404-design'', config_name = ''Designer Interview'',
          primaryModel = ''mistral-large'', secondaryModel = ''claude-3-sonnet''\<rparr>"]
  by (simp add: initial_server_def js_get_def Object_prototype_keys_def)

text \<open>
  Reading the missing entry as \<open>UNKNOWN\<close> is not what happens: with a configuration
  whose primary model \<^verbatim>\<open>gemini-pro\<close> is not a key of the health table, the handler
  throws instead of falling back.
\<close>

theorem missing_entry_counterexample:
  "map_of (modelHealthStatus
      ((initial_server (\<lambda>n. 1 / 2))
         \<lparr>simulationConfigs :=
            [(''sim-303-legal'',
              \<lparr>config_id = ''sim-303-legal'', config_name = ''Paralegal Interview'',
               primaryModel = ''gemini-pro'', secondaryModel = ''gpt-4o''\<rparr>)]\<rparr>)) ''gemini-pro'' = None \<and>
   fst (resolve_model (Some ''sim-303-legal'')
      ((initial_server (\<lambda>n. 1 / 2))
         \<lparr>simulationConfigs :=
            [(''sim-303-legal'',
              \<lparr>config_id = ''sim-303-legal'', config_name = ''Paralegal Interview'',
               primaryModel = ''gemini-pro'', secondaryModel = ''gpt-4o''\<rparr>)]\<rparr>)) = Inl TypeError"
  by (simp add: resolve_model_def initial_server_def js_get_def Object_prototype_keys_def
      Let_def show_string_def)

text \<open>
  \<^bold>\<open>C8\<close>. Take any execution \<open>evs\<close> of the server from its initial state and a model
  \<open>m\<close> of the initial health table. While no probe of \<open>m\<close> has completed, the entry of
  \<open>m\<close> is \<open>UNKNOWN\<close> with latency \<^verbatim>\<open>null\<close>. Once a probe of \<open>m\<close> has completed, the status of
  \<open>m\<close> is \<open>HEALTHY\<close> or \<open>UNHEALTHY\<close>, never \<open>UNKNOWN\<close>, whatever happens afterwards; and
  the entry is exactly the classification of the outcome of the latest completed probe
  of \<open>m\<close>.
\<close>

theorem unknown_only_before_first_probe:
  assumes "m \<in> set (js_keys (modelHealthStatus (initial_server rnd)))"
  shows
    "(ProbeCompleted m \<notin> set evs \<longrightarrow>
        js_get (modelHealthStatus (run evs (initial_server rnd))) m =
          Own \<lparr>status = UNKNOWN, latency = None\<rparr>) \<and>
     (ProbeCompleted m \<in> set evs \<longrightarrow>
        (\<exists>h. js_get (modelHealthStatus (run evs (initial_server rnd))) m = Own h \<and>
             (status h = HEALTHY \<or> status h = UNHEALTHY))) \<and>
     (\<forall>before after. evs = before @ ProbeCompleted m # after \<and> ProbeCompleted m \<notin> set after \<longrightarrow>
        js_get (modelHealthStatus (run evs (initial_server rnd))) m =
          Own \<lparr>status =
                 (if success (fst (mockCheckLLMHealth m (run before (initial_server rnd)))) \<and>
                     result_latency (fst (mockCheckLLMHealth m (run before (initial_server rnd))))
                       < LATENCY_THRESHOLD_MS
                  then HEALTHY else UNHEALTHY),
               latency =
                 Some (result_latency (fst (mockCheckLLMHealth m (run before (initial_server rnd)))))\<rparr>)"
proof (intro conjI impI allI)
  assume "ProbeCompleted m \<notin> set evs"
  then show "js_get (modelHealthStatus (run evs (initial_server rnd))) m =
      Own \<lparr>status = UNKNOWN, latency = None\<rparr>"
    by (simp add: run_other initial_entries [OF assms])
next
  assume "ProbeCompleted m \<in> set evs"
  then obtain before after
    where "evs = before @ ProbeCompleted m # after" and "ProbeCompleted m \<notin> set after"
    by (auto dest: split_list_last)
  then show "\<exists>h. js_get (modelHealthStatus (run evs (initial_server rnd))) m = Own h \<and>
      (status h = HEALTHY \<or> status h = UNHEALTHY)"
    by (simp add: run_last_probe)
next
  fix before after
  assume "evs = before @ ProbeCompleted m # after \<and> ProbeCompleted m \<notin> set after"
  then show "js_get (modelHealthStatus (run evs (initial_server rnd))) m =
      Own \<lparr>status =
             (if success (fst (mockCheckLLMHealth m (run before (initial_server rnd)))) \<and>
                 result_latency (fst (mockCheckLLMHealth m (run before (initial_server rnd))))
                   < LATENCY_THRESHOLD_MS
              then HEALTHY else UNHEALTHY),
           latency =
             Some (result_latency (fst (mockCheckLLMHealth m (run before (initial_server rnd)))))\<rparr>"
    by (simp add: run_last_probe)
qed

theorem unknown_only_before_first_probe_witness:
  "js_get (modelHealthStatus
      (run [ProbeCompleted ''gpt-4o'', ResolveRequest (Some ''sim-202-engineering'')]
         (initial_server (\<lambda>n. 1 / 2)))) ''claude-3-sonnet'' =
     Own \<lparr>status = UNKNOWN, latency = None\<rparr> \<and>
   js_get (modelHealthStatus
      (run [ProbeCompleted ''gpt-4o'', ResolveRequest (Some ''sim-202-engineering'')]
         (initial_server (\<lambda>n. 1 / 2)))) ''gpt-4o'' =
     Own \<lparr>status = HEALTHY, latency = Some 300\<rparr>"
proof -
  let ?evs = "[ProbeCompleted ''gpt-4o'', ResolveRequest (Some ''sim-202-engineering'')]"
  have k1: "''claude-3-sonnet'' \<in> set (js_keys (modelHealthStatus (initial_server (\<lambda>n. 1 / 2))))"
    and k2: "''gpt-4o'' \<in> set (js_keys (modelHealthStatus (initial_server (\<lambda>n. 1 / 2))))"
    by (simp_all add: initial_server_def js_keys_def)
  have split: "?evs = [] @ ProbeCompleted ''gpt-4o'' # [ResolveRequest (Some ''sim-202-engineering'')] \<and>
      ProbeCompleted ''gpt-4o'' \<notin> set [ResolveRequest (Some ''sim-202-engineering'')]"
    by simp
  from unknown_only_before_first_probe [OF k1, of ?evs]
  have a: "js_get (modelHealthStatus (run ?evs (initial_server (\<lambda>n. 1 / 2)))) ''claude-3-sonnet'' =
      Own \<lparr>status = UNKNOWN, latency = None\<rparr>"
    by simp
  from unknown_only_before_first_probe [OF k2, of ?evs] split
  have "js_get (modelHealthStatus (run ?evs (initial_server (\<lambda>n. 1 / 2)))) ''gpt-4o'' =
      Own \<lparr>status =
             (if success (fst (mockCheckLLMHealth ''gpt-4o'' (run [] (initial_server (\<lambda>n. 1 / 2))))) \<and>
                 result_latency (fst (mockCheckLLMHealth ''gpt-4o'' (run [] (initial_server (\<lambda>n. 1 / 2)))))
                   < LATENCY_THRESHOLD_MS
              then HEALTHY else UNHEALTHY),
           latency =
             Some (result_latency (fst (mockCheckLLMHealth ''gpt-4o'' (run [] (initial_server (\<lambda>n. 1 / 2))))))\<rparr>"
    by blast
  then have b: "js_get (modelHealthStatus (run ?evs (initial_server (\<lambda>n. 1 / 2)))) ''gpt-4o'' =
      Own \<lparr>status = HEALTHY, latency = Some 300\<rparr>"
    by (simp add: mock_result initial_server_def Math_round_def LATENCY_THRESHOLD_MS_def)
  from a b show ?thesis by simp
qed

text \<open>
  \<^bold>\<open>C9\<close>. The answer of the handler is a function of the simulation id, the
  configurations and the health table alone: in two states that agree on these two
  objects (they may differ in the console and in the random numbers) it answers the same,
  in particular when it is called a second time right after the first call. The handler
  changes neither the health table nor the configurations.
\<close>

theorem resolve_deterministic_and_pure:
  assumes "simulationConfigs s' = simulationConfigs s"
    and "modelHealthStatus s' = modelHealthStatus s"
  shows "fst (resolve_model sid s') = fst (resolve_model sid s) \<and>
         fst (resolve_model sid (snd (resolve_model sid s))) = fst (resolve_model sid s) \<and>
         modelHealthStatus (snd (resolve_model sid s)) = modelHealthStatus s \<and>
         simulationConfigs (snd (resolve_model sid s)) = simulationConfigs s"
proof (intro conjI)
  show "fst (resolve_model sid s') = fst (resolve_model sid s)"
    by (rule resolve_response_cong [OF assms])
  show "fst (resolve_model sid (snd (resolve_model sid s))) = fst (resolve_model sid s)"
    by (rule resolve_response_cong) simp_all
qed simp_all

theorem resolve_deterministic_and_pure_witness:
  "console (console_log [Text ''Server listening on port 3000''] (initial_server (\<lambda>n. 1 / 2)))
     \<noteq> console (initial_server (\<lambda>n. 1 / 2)) \<and>
   fst (resolve_model (Some ''sim-202-engineering'')
          (console_log [Text ''Server listening on port 3000''] (initial_server (\<lambda>n. 1 / 2)))) =
   fst (resolve_model (Some ''sim-202-engineering'') (initial_server (\<lambda>n. 1 / 2)))"
  using resolve_deterministic_and_pure
    [of "console_log [Text ''Server listening on port 3000''] (initial_server (\<lambda>n. 1 / 2))"
        "initial_server (\<lambda>n. 1 / 2)" "Some ''sim-202-engineering''"]
  by (simp add: initial_server_def)

text \<open>
  \<^bold>\<open>C10\<close>. After the loop body has run for a model, the entry of the model is one
  record built from the outcome of that probe: its latency is the latency the probe
  reported, in the \<open>HEALTHY\<close> and in the \<open>UNHEALTHY\<close> branch alike (never \<^verbatim>\<open>null\<close>), and its
  status is the classification of the same outcome.
\<close>

theorem entry_is_probe_pair:
  "js_get (modelHealthStatus (probe_model m s)) m =
     Own \<lparr>status = (if success (fst (mockCheckLLMHealth m s)) \<and>
                      result_latency (fst (mockCheckLLMHealth m s)) < LATENCY_THRESHOLD_MS
                   then HEALTHY else UNHEALTHY),
          latency = Some (result_latency (fst (mockCheckLLMHealth m s)))\<rparr>"
  by (simp add: probe_model_table js_get_js_set)

end
